theory Spec2Isabelle
  imports Main
begin

section \<open>The MCP context server: one route, one server-sent event\<close>

text \<open>
  The program under verification is \<^verbatim>\<open>mcp_server.py\<close>:
  \<^verbatim>\<open>
  app = FastAPI()

  @app.get("/sse")
  async def mcp_context():
      data = {"toolgroups": [{"name": "rag-dogs",
                              "args": {"vector_db_ids": ["toy_faiss_db"]}}]}
      return EventSourceResponse((json.dumps(data) for _ in range(1)))
  \<close>
  The handler itself is embedded from the source. What it calls (the serialiser
  \<^verbatim>\<open>json.dumps\<close>, the iterator protocol, the route table of the web framework and
  the streaming response of the SSE library) is not part of the repository; each such
  definition says so where it is introduced.
\<close>

subsection \<open>Python values and \<^verbatim>\<open>json.dumps\<close>\<close>

text \<open>
  The values the handler builds: strings, lists and dictionaries with string keys (an
  association list, since a Python dictionary keeps insertion order and the serialiser
  writes the items in that order). \<open>PyObject\<close> stands for any value the serialiser
  has no encoding for (a set, a class instance); it carries the name of its type.
\<close>

datatype pyval =
    PyStr string
  | PyList "pyval list"
  | PyDict "(string \<times> pyval) list"
  | PyObject string

datatype error = TypeError string

text \<open>
  Modelled from the spec: the serialiser is Python's standard library, not code of the
  repository. \<open>json_dumps\<close> follows \<^verbatim>\<open>json.dumps\<close> with its default arguments:
  item separator \<^verbatim>\<open>", "\<close>, key separator \<^verbatim>\<open>": "\<close>, no indentation, ASCII-only
  output (\<^verbatim>\<open>ensure_ascii=True\<close>). A value without an encoding raises
  \<^verbatim>\<open>TypeError\<close>. Strings are lists of characters with code points below 256.
\<close>

definition hex_digit :: "nat \<Rightarrow> char" where
  \<open>hex_digit d = ''0123456789abcdef'' ! (d mod 16)\<close>

definition escape_char :: "char \<Rightarrow> string" where
  \<open>escape_char c =
     (if c = CHR 0x22 then [CHR 0x5C, CHR 0x22]
      else if c = CHR 0x5C then [CHR 0x5C, CHR 0x5C]
      else if c = CHR 0x0A then [CHR 0x5C, CHR ''n'']
      else if c = CHR 0x0D then [CHR 0x5C, CHR ''r'']
      else if c = CHR 0x09 then [CHR 0x5C, CHR ''t'']
      else if c = CHR 0x08 then [CHR 0x5C, CHR ''b'']
      else if c = CHR 0x0C then [CHR 0x5C, CHR ''f'']
      else if (of_char c :: nat) < 32 \<or> 126 < (of_char c :: nat)
        then [CHR 0x5C, CHR ''u'', CHR ''0'', CHR ''0'',
              hex_digit (of_char c div 16), hex_digit (of_char c mod 16)]
      else [c])\<close>

definition py_encode_basestring_ascii :: "string \<Rightarrow> string" where
  \<open>py_encode_basestring_ascii s = [CHR 0x22] @ concat (map escape_char s) @ [CHR 0x22]\<close>

text \<open>
  \<open>dumps_elems\<close> and \<open>dumps_items\<close> write the elements of a non-empty list and the
  items of a non-empty dictionary, separated by \<^verbatim>\<open>", "\<close>; the first error ends the
  serialisation, as the exception does.
\<close>

fun json_dumps :: "pyval \<Rightarrow> error + string"
  and dumps_elems :: "pyval list \<Rightarrow> error + string"
  and dumps_items :: "(string \<times> pyval) list \<Rightarrow> error + string" where
  \<open>json_dumps (PyStr s) = Inr (py_encode_basestring_ascii s)\<close>
| \<open>json_dumps (PyList xs) =
     (case dumps_elems xs of Inl e \<Rightarrow> Inl e | Inr t \<Rightarrow> Inr (''['' @ t @ '']''))\<close>
| \<open>json_dumps (PyDict kvs) =
     (case dumps_items kvs of Inl e \<Rightarrow> Inl e | Inr t \<Rightarrow> Inr (''{'' @ t @ ''}''))\<close>
| \<open>json_dumps (PyObject ty) =
     Inl (TypeError (''Object of type '' @ ty @ '' is not JSON serializable''))\<close>
| \<open>dumps_elems [] = Inr []\<close>
| \<open>dumps_elems (x # xs) =
     (case json_dumps x of
        Inl e \<Rightarrow> Inl e
      | Inr t \<Rightarrow>
          (if xs = [] then Inr t
           else case dumps_elems xs of Inl e \<Rightarrow> Inl e | Inr ts \<Rightarrow> Inr (t @ '', '' @ ts)))\<close>
| \<open>dumps_items [] = Inr []\<close>
| \<open>dumps_items (kv # kvs) =
     (case json_dumps (snd kv) of
        Inl e \<Rightarrow> Inl e
      | Inr t \<Rightarrow>
          (let item = py_encode_basestring_ascii (fst kv) @ '': '' @ t
           in if kvs = [] then Inr item
              else case dumps_items kvs of Inl e \<Rightarrow> Inl e | Inr ts \<Rightarrow> Inr (item @ '', '' @ ts)))\<close>

subsection \<open>The payload\<close>

text \<open>The dictionary literal bound to the local variable \<^verbatim>\<open>data\<close>.\<close>

definition data :: pyval where
  \<open>data =
     PyDict [(''toolgroups'',
       PyList [PyDict [(''name'', PyStr ''rag-dogs''),
                       (''args'', PyDict [(''vector_db_ids'', PyList [PyStr ''toy_faiss_db''])])]])]\<close>

text \<open>The wire payload as the specification prints it.\<close>

definition wire_payload :: string where
  \<open>wire_payload =
     ''{"toolgroups": [{"name": "rag-dogs", "args": {"vector_db_ids": ["toy_faiss_db"]}}]}''\<close>

subsection \<open>The generator expression\<close>

text \<open>
  \<^verbatim>\<open>range(1)\<close> is evaluated when the generator expression is created; iterating it
  follows the iterator protocol: \<open>range_next\<close> gives the next number and the advanced
  iterator, or \<open>None\<close> where Python raises \<^verbatim>\<open>StopIteration\<close>.
\<close>

type_synonym range_iterator = "int \<times> int"

definition py_range :: "int \<Rightarrow> range_iterator" where
  \<open>py_range n = (0, n)\<close>

fun range_next :: "range_iterator \<Rightarrow> (int \<times> range_iterator) option" where
  \<open>range_next (i, n) = (if i < n then Some (i, (i + 1, n)) else None)\<close>

text \<open>
  One step of an iterator: it is exhausted, it raises, or it yields a value and continues
  from a new state.
\<close>

datatype ('a, 'g) step = StopIteration | Raised error | Yielded 'a 'g

text \<open>
  The generator \<^verbatim>\<open>(json.dumps(data) for _ in range(1))\<close> closes over the local
  \<^verbatim>\<open>data\<close> and holds the iterator of the range. It is lazy: the element expression
  \<^verbatim>\<open>json.dumps(data)\<close> runs each time the generator is advanced, so an error of the
  serialiser would surface while the response is streamed.
\<close>

record generator =
  gen_data :: pyval
  gen_iter :: range_iterator

definition genexpr :: "pyval \<Rightarrow> range_iterator \<Rightarrow> generator" where
  \<open>genexpr d it = \<lparr>gen_data = d, gen_iter = it\<rparr>\<close>

definition gen_next :: "generator \<Rightarrow> (string, generator) step" where
  \<open>gen_next g =
     (case range_next (gen_iter g) of
        None \<Rightarrow> StopIteration
      | Some (_, it') \<Rightarrow>
          (case json_dumps (gen_data g) of
             Inl e \<Rightarrow> Raised e
           | Inr t \<Rightarrow> Yielded t (g\<lparr>gen_iter := it'\<rparr>)))\<close>

subsection \<open>The streaming response\<close>

text \<open>
  Modelled from the spec: the class \<^verbatim>\<open>EventSourceResponse\<close> belongs to the SSE
  library, which is not in the repository. The handler passes the event source and nothing
  else, so status and media type are the library's defaults, which the specification gives
  as \<^verbatim>\<open>200 OK\<close> and \<^verbatim>\<open>Content-Type: text/event-stream\<close>.
\<close>

record event_source_response =
  status_code :: nat
  media_type :: string
  body_iterator :: generator

definition EventSourceResponse :: "generator \<Rightarrow> event_source_response" where
  \<open>EventSourceResponse content =
     \<lparr>status_code = 200, media_type = ''text/event-stream'', body_iterator = content\<rparr>\<close>

text \<open>
  Modelled from the spec: the framing of an event is the library's. An event has an
  optional identifier, an optional event name and optional data; each field that is present
  is written as one line \<^verbatim>\<open>name: value\<close>, and an empty line ends the event. The line
  separator \<open>sep\<close> is a parameter (the specification writes the frame with a line feed
  "or equivalent"). A string taken from the event source becomes an event with data only.
\<close>

record server_sent_event =
  sse_id :: "string option"
  sse_event :: "string option"
  sse_data :: "string option"

definition encode :: "string \<Rightarrow> server_sent_event \<Rightarrow> string" where
  \<open>encode sep ev =
     (case sse_id ev of None \<Rightarrow> [] | Some i \<Rightarrow> ''id: '' @ i @ sep) @
     (case sse_event ev of None \<Rightarrow> [] | Some n \<Rightarrow> ''event: '' @ n @ sep) @
     (case sse_data ev of None \<Rightarrow> [] | Some d \<Rightarrow> ''data: '' @ d @ sep) @
     sep\<close>

definition ensure_bytes :: "string \<Rightarrow> string \<Rightarrow> string" where
  \<open>ensure_bytes sep item = encode sep \<lparr>sse_id = None, sse_event = None, sse_data = Some item\<rparr>\<close>

text \<open>
  Modelled from the spec: what the server sends for a response, as the messages of the
  server interface: the start of the response with status and headers, then one body
  message for each item of the event source (\<open>more_body = True\<close>), then an empty body
  message with \<open>more_body = False\<close>, which is the end of the stream. The loop that drains
  the event source knows nothing about the source it is given, so it is a partial
  function: \<open>None\<close> is a stream that never ends. An error raised by the source ends the
  loop with the messages sent so far, without the closing message.
\<close>

datatype asgi_message =
    HttpResponseStart nat "(string \<times> string) list"
  | HttpResponseBody string bool

partial_function (option) send_body ::
  "('g \<Rightarrow> (string, 'g) step) \<Rightarrow> string \<Rightarrow> 'g \<Rightarrow> asgi_message list
     \<Rightarrow> (asgi_message list \<times> error option) option" where
  \<open>send_body nxt sep g sent =
     (case nxt g of
        StopIteration \<Rightarrow> Some (sent @ [HttpResponseBody [] False], None)
      | Raised e \<Rightarrow> Some (sent, Some e)
      | Yielded x g' \<Rightarrow> send_body nxt sep g' (sent @ [HttpResponseBody (ensure_bytes sep x) True]))\<close>

definition stream_response ::
  "string \<Rightarrow> event_source_response \<Rightarrow> (asgi_message list \<times> error option) option" where
  \<open>stream_response sep resp =
     send_body gen_next sep (body_iterator resp)
       [HttpResponseStart (status_code resp) [(''content-type'', media_type resp)]]\<close>

text \<open>The event frames among the messages of a response: the bodies sent before the end.\<close>

fun event_frames :: "asgi_message list \<Rightarrow> string list" where
  \<open>event_frames [] = []\<close>
| \<open>event_frames (HttpResponseBody b True # ms) = b # event_frames ms\<close>
| \<open>event_frames (m # ms) = event_frames ms\<close>

subsection \<open>Program state, the application and its handler\<close>

text \<open>
  The state a request could observe or change: the route table of the application object
  and the files (path and content) of the host.
\<close>

datatype http_method = GET | HEAD | POST | PUT | DELETE | PATCH | OPTIONS

datatype endpoint = Mcp_context

record route =
  route_path :: string
  route_methods :: "http_method list"
  route_endpoint :: endpoint

record program_state =
  app_routes :: "route list"
  files :: "(string \<times> string) list"

record request =
  req_method :: http_method
  req_path :: string
  req_query :: string
  req_headers :: "(string \<times> string) list"
  req_body :: string

text \<open>
  The handler \<^verbatim>\<open>mcp_context\<close>. It has no parameter, so the request is not among its
  arguments; it binds the literal to a local variable and returns the response object built
  around the generator. The program state is passed through.
\<close>

definition mcp_context :: "program_state \<Rightarrow> event_source_response \<times> program_state" where
  \<open>mcp_context s = (let d = data in (EventSourceResponse (genexpr d (py_range 1)), s))\<close>

text \<open>
  Modelled from the spec: the route table is the web framework's, which is not in the
  repository. \<^verbatim>\<open>FastAPI()\<close> creates an application with no route of the
  application's own (the framework's built-in documentation pages are the framework's, not
  the application's, and are left out), and the decorator \<^verbatim>\<open>@app.get(path)\<close> adds one
  route for the method \<^verbatim>\<open>GET\<close> only.
\<close>

definition FastAPI :: "route list" where
  \<open>FastAPI = []\<close>

definition app_get :: "string \<Rightarrow> endpoint \<Rightarrow> route list \<Rightarrow> route list" where
  \<open>app_get p f rs = rs @ [\<lparr>route_path = p, route_methods = [GET], route_endpoint = f\<rparr>]\<close>

text \<open>The module's top level: create the application, register the handler.\<close>

definition app :: "route list" where
  \<open>app = app_get ''/sse'' Mcp_context FastAPI\<close>

definition import_module :: "program_state \<Rightarrow> program_state" where
  \<open>import_module s = s\<lparr>app_routes := app\<rparr>\<close>

text \<open>
  Modelled from the spec: dispatch is the framework's. A request is matched on its method
  and its path (the query string, the headers and the body play no part); the first
  matching route's endpoint is called and its response streamed. \<open>NoRoute\<close> is a request
  that no route of the application handles.
\<close>

fun find_route :: "route list \<Rightarrow> http_method \<Rightarrow> string \<Rightarrow> route option" where
  \<open>find_route [] m p = None\<close>
| \<open>find_route (r # rs) m p =
     (if route_path r = p \<and> m \<in> set (route_methods r) then Some r else find_route rs m p)\<close>

fun call_endpoint :: "endpoint \<Rightarrow> program_state \<Rightarrow> event_source_response \<times> program_state" where
  \<open>call_endpoint Mcp_context s = mcp_context s\<close>

datatype outcome = NoRoute | Served "asgi_message list" "error option"

definition handle_request ::
  "string \<Rightarrow> request \<Rightarrow> program_state \<Rightarrow> outcome option \<times> program_state" where
  \<open>handle_request sep req s =
     (case find_route (app_routes s) (req_method req) (req_path req) of
        None \<Rightarrow> (Some NoRoute, s)
      | Some r \<Rightarrow>
          (let (resp, s') = call_endpoint (route_endpoint r) s
           in (map_option (\<lambda>(msgs, e). Served msgs e) (stream_response sep resp), s')))\<close>

text \<open>Requests served one after the other, each from the state the previous one left.\<close>

fun serve ::
  "string \<Rightarrow> request list \<Rightarrow> program_state \<Rightarrow> outcome option list \<times> program_state" where
  \<open>serve sep [] s = ([], s)\<close>
| \<open>serve sep (r # rs) s =
     (let (out, s') = handle_request sep r s;
          (outs, s'') = serve sep rs s'
      in (out # outs, s''))\<close>

text \<open>A request to the route: \<^verbatim>\<open>GET /sse\<close> with any query string, headers and body.\<close>

definition sse_request :: "string \<Rightarrow> (string \<times> string) list \<Rightarrow> string \<Rightarrow> request" where
  \<open>sse_request q hs b =
     \<lparr>req_method = GET, req_path = ''/sse'', req_query = q, req_headers = hs, req_body = b\<rparr>\<close>

subsection \<open>Reading the payload back\<close>

text \<open>
  Modelled from the spec: the repository only writes JSON; the specification speaks of the
  payload "parsed as JSON", so \<open>json_loads\<close> reads the JSON texts that denote a \<open>pyval\<close>
  (strings, arrays and objects, with white space between the tokens). The scanner walks
  the text once; inside a string it decodes the escapes, and a control character inside a
  string is an error. A repeated key of an object keeps its first position and takes the
  last value, as a Python dictionary does. \<open>None\<close> is a text that is not read.
\<close>

datatype token = LBrace | RBrace | LBrack | RBrack | Colon | Comma | TString string

datatype scan_mode =
    Outside
  | InString string
  | InEscape string
  | InHex string nat nat

definition unescape :: "char \<Rightarrow> char option" where
  \<open>unescape c =
     (if c = CHR 0x22 then Some (CHR 0x22)
      else if c = CHR 0x5C then Some (CHR 0x5C)
      else if c = CHR ''/'' then Some (CHR ''/'')
      else if c = CHR ''n'' then Some (CHR 0x0A)
      else if c = CHR ''r'' then Some (CHR 0x0D)
      else if c = CHR ''t'' then Some (CHR 0x09)
      else if c = CHR ''b'' then Some (CHR 0x08)
      else if c = CHR ''f'' then Some (CHR 0x0C)
      else None)\<close>

definition hex_value :: "char \<Rightarrow> nat option" where
  \<open>hex_value c =
     (let n = (of_char c :: nat) in
      if 48 \<le> n \<and> n \<le> 57 then Some (n - 48)
      else if 97 \<le> n \<and> n \<le> 102 then Some (n - 87)
      else if 65 \<le> n \<and> n \<le> 70 then Some (n - 55)
      else None)\<close>

definition is_space :: "char \<Rightarrow> bool" where
  \<open>is_space c \<longleftrightarrow> c = CHR '' '' \<or> c = CHR 0x09 \<or> c = CHR 0x0A \<or> c = CHR 0x0D\<close>

fun scan :: "scan_mode \<Rightarrow> token list \<Rightarrow> string \<Rightarrow> token list option" where
  \<open>scan Outside toks [] = Some (rev toks)\<close>
| \<open>scan mode toks [] = None\<close>
| \<open>scan Outside toks (c # cs) =
     (if c = CHR ''{'' then scan Outside (LBrace # toks) cs
      else if c = CHR ''}'' then scan Outside (RBrace # toks) cs
      else if c = CHR ''['' then scan Outside (LBrack # toks) cs
      else if c = CHR '']'' then scan Outside (RBrack # toks) cs
      else if c = CHR '':'' then scan Outside (Colon # toks) cs
      else if c = CHR '','' then scan Outside (Comma # toks) cs
      else if c = CHR 0x22 then scan (InString []) toks cs
      else if is_space c then scan Outside toks cs
      else None)\<close>
| \<open>scan (InString acc) toks (c # cs) =
     (if c = CHR 0x22 then scan Outside (TString (rev acc) # toks) cs
      else if c = CHR 0x5C then scan (InEscape acc) toks cs
      else if (of_char c :: nat) < 32 then None
      else scan (InString (c # acc)) toks cs)\<close>
| \<open>scan (InEscape acc) toks (c # cs) =
     (if c = CHR ''u'' then scan (InHex acc 0 4) toks cs
      else case unescape c of
             None \<Rightarrow> None
           | Some d \<Rightarrow> scan (InString (d # acc)) toks cs)\<close>
| \<open>scan (InHex acc v k) toks (c # cs) =
     (case hex_value c of
        None \<Rightarrow> None
      | Some h \<Rightarrow>
          (if k \<le> 1
           then (if 16 * v + h < 256 then scan (InString (char_of (16 * v + h) # acc)) toks cs
                 else None)
           else scan (InHex acc (16 * v + h) (k - 1)) toks cs))\<close>

fun dict_set :: "string \<Rightarrow> pyval \<Rightarrow> (string \<times> pyval) list \<Rightarrow> (string \<times> pyval) list" where
  \<open>dict_set k v [] = [(k, v)]\<close>
| \<open>dict_set k v (p # ps) = (if fst p = k then (k, v) # ps else p # dict_set k v ps)\<close>

text \<open>
  The parser descends through the tokens. Its first argument bounds the depth of the
  descent; each call consumes a token, so the number of tokens is always enough.
  \<open>parse_elems\<close> reads the elements of an array up to the closing bracket and
  \<open>parse_members\<close> the members of an object up to the closing brace, adding them to the
  dictionary read so far.
\<close>

fun parse_value :: "nat \<Rightarrow> token list \<Rightarrow> (pyval \<times> token list) option"
  and parse_elems :: "nat \<Rightarrow> token list \<Rightarrow> (pyval list \<times> token list) option"
  and parse_members ::
    "nat \<Rightarrow> (string \<times> pyval) list \<Rightarrow> token list \<Rightarrow> ((string \<times> pyval) list \<times> token list) option"
  where
  \<open>parse_value 0 ts = None\<close>
| \<open>parse_value (Suc n) (TString s # ts) = Some (PyStr s, ts)\<close>
| \<open>parse_value (Suc n) (LBrack # RBrack # ts) = Some (PyList [], ts)\<close>
| \<open>parse_value (Suc n) (LBrack # ts) =
     (case parse_elems n ts of
        None \<Rightarrow> None
      | Some (xs, ts') \<Rightarrow> Some (PyList xs, ts'))\<close>
| \<open>parse_value (Suc n) (LBrace # RBrace # ts) = Some (PyDict [], ts)\<close>
| \<open>parse_value (Suc n) (LBrace # ts) =
     (case parse_members n [] ts of
        None \<Rightarrow> None
      | Some (kvs, ts') \<Rightarrow> Some (PyDict kvs, ts'))\<close>
| \<open>parse_value (Suc n) ts = None\<close>
| \<open>parse_elems 0 ts = None\<close>
| \<open>parse_elems (Suc n) ts =
     (case parse_value n ts of
        None \<Rightarrow> None
      | Some (x, RBrack # ts') \<Rightarrow> Some ([x], ts')
      | Some (x, Comma # ts') \<Rightarrow>
          (case parse_elems n ts' of
             None \<Rightarrow> None
           | Some (xs, ts'') \<Rightarrow> Some (x # xs, ts''))
      | Some (x, ts') \<Rightarrow> None)\<close>
| \<open>parse_members 0 d ts = None\<close>
| \<open>parse_members (Suc n) d (TString k # Colon # ts) =
     (case parse_value n ts of
        None \<Rightarrow> None
      | Some (v, RBrace # ts') \<Rightarrow> Some (dict_set k v d, ts')
      | Some (v, Comma # ts') \<Rightarrow> parse_members n (dict_set k v d) ts'
      | Some (v, ts') \<Rightarrow> None)\<close>
| \<open>parse_members (Suc n) d ts = None\<close>

definition json_loads :: "string \<Rightarrow> pyval option" where
  \<open>json_loads t =
     (case scan Outside [] t of
        None \<Rightarrow> None
      | Some toks \<Rightarrow>
          (case parse_value (Suc (length toks)) toks of
             Some (v, []) \<Rightarrow> Some v
           | _ \<Rightarrow> None))\<close>

section \<open>Properties\<close>

subsection \<open>Serialisation and the generator\<close>

lemma json_dumps_data: \<open>json_dumps data = Inr wire_payload\<close>
  by (simp add: data_def wire_payload_def py_encode_basestring_ascii_def escape_char_def)

lemma gen_next_first:
  \<open>gen_next (genexpr data (py_range 1)) = Yielded wire_payload (genexpr data (1, 1))\<close>
  by (simp add: gen_next_def genexpr_def py_range_def json_dumps_data)

lemma gen_next_second: \<open>gen_next (genexpr data (1, 1)) = StopIteration\<close>
  by (simp add: gen_next_def genexpr_def)

lemma stream_response_mcp_context:
  \<open>stream_response sep (fst (mcp_context s)) =
     Some ([HttpResponseStart 200 [(''content-type'', ''text/event-stream'')],
            HttpResponseBody (ensure_bytes sep wire_payload) True,
            HttpResponseBody [] False], None)\<close>
  by (simp add: stream_response_def mcp_context_def EventSourceResponse_def
      send_body.simps [of gen_next] gen_next_first gen_next_second)

lemma json_loads_wire_payload: \<open>json_loads wire_payload = Some data\<close>
  by (simp add: json_loads_def wire_payload_def data_def is_space_def)

text \<open>The error channel of the stream is a real one: a payload without an encoding ends
  the stream with the error, after the start of the response and before any event.\<close>

lemma stream_response_unserialisable:
  \<open>stream_response sep (EventSourceResponse (genexpr (PyObject ''set'') (py_range 1))) =
     Some ([HttpResponseStart 200 [(''content-type'', ''text/event-stream'')]],
           Some (TypeError ''Object of type set is not JSON serializable''))\<close>
  by (simp add: stream_response_def EventSourceResponse_def send_body.simps [of gen_next]
      gen_next_def genexpr_def py_range_def)

text \<open>Draining a generator over any range ends, whatever the payload and wherever the
  range stands: the distance to the end of the range shrinks with each item.\<close>

lemma send_body_range_terminates:
  \<open>\<exists>res. send_body gen_next sep \<lparr>gen_data = d, gen_iter = (i, n)\<rparr> sent = Some res\<close>
proof (induction "nat (n - i)" arbitrary: i sent)
  case 0
  then have \<open>\<not> i < n\<close> by simp
  then have \<open>gen_next \<lparr>gen_data = d, gen_iter = (i, n)\<rparr> = StopIteration\<close>
    by (simp add: gen_next_def)
  then show ?case
    by (subst send_body.simps) simp
next
  case (Suc k)
  then have less: \<open>i < n\<close> and dist: \<open>k = nat (n - (i + 1))\<close> by simp_all
  show ?case
  proof (cases "json_dumps d")
    case (Inl e)
    with less have \<open>gen_next \<lparr>gen_data = d, gen_iter = (i, n)\<rparr> = Raised e\<close>
      by (simp add: gen_next_def)
    then show ?thesis
      by (subst send_body.simps) simp
  next
    case (Inr t)
    with less have \<open>gen_next \<lparr>gen_data = d, gen_iter = (i, n)\<rparr> =
        Yielded t \<lparr>gen_data = d, gen_iter = (i + 1, n)\<rparr>\<close>
      by (simp add: gen_next_def)
    moreover from Suc.hyps(1) [OF dist]
    obtain res where \<open>send_body gen_next sep \<lparr>gen_data = d, gen_iter = (i + 1, n)\<rparr>
        (sent @ [HttpResponseBody (ensure_bytes sep t) True]) = Some res\<close>
      by blast
    ultimately show ?thesis
      by (subst send_body.simps) simp
  qed
qed

subsection \<open>Routing and the state\<close>

lemma find_route_app:
  \<open>find_route app m p =
     (if p = ''/sse'' \<and> m = GET
      then Some \<lparr>route_path = ''/sse'', route_methods = [GET], route_endpoint = Mcp_context\<rparr>
      else None)\<close>
  by (auto simp add: app_def app_get_def FastAPI_def)

lemma call_endpoint_state: \<open>snd (call_endpoint e s) = s\<close>
  by (cases e) (simp add: mcp_context_def)

lemma handle_request_state: \<open>snd (handle_request sep r s) = s\<close>
  by (simp add: handle_request_def call_endpoint_state split_beta split: option.split)

lemma serve_state: \<open>snd (serve sep rs s) = s\<close>
proof (induction rs arbitrary: s)
  case Nil
  show ?case by simp
next
  case (Cons r rs)
  have \<open>snd (handle_request sep r s) = s\<close>
    by (rule handle_request_state)
  with Cons.IH [of s] show ?case
    by (simp add: split_beta)
qed

lemma handle_request_sse:
  assumes \<open>req_method r = GET\<close> and \<open>req_path r = ''/sse''\<close> and \<open>app_routes s = app\<close>
  shows \<open>handle_request sep r s =
     (Some (Served [HttpResponseStart 200 [(''content-type'', ''text/event-stream'')],
                    HttpResponseBody (ensure_bytes sep wire_payload) True,
                    HttpResponseBody [] False] None), s)\<close>
proof -
  have \<open>stream_response sep (fst (mcp_context s)) =
     Some ([HttpResponseStart 200 [(''content-type'', ''text/event-stream'')],
            HttpResponseBody (ensure_bytes sep wire_payload) True,
            HttpResponseBody [] False], None)\<close>
    by (rule stream_response_mcp_context)
  moreover have \<open>snd (mcp_context s) = s\<close>
    by (simp add: mcp_context_def)
  ultimately show ?thesis
    using assms by (simp add: handle_request_def find_route_app split_beta)
qed

lemma handle_request_other:
  assumes \<open>req_method r \<noteq> GET \<or> req_path r \<noteq> ''/sse''\<close> and \<open>app_routes s = app\<close>
  shows \<open>handle_request sep r s = (Some NoRoute, s)\<close>
  using assms by (auto simp add: handle_request_def find_route_app)

section \<open>The claims of the specification\<close>

text \<open>
  C1. Every request \<^verbatim>\<open>GET /sse\<close> is answered with exactly one event, and the stream
  ends right after it: the messages are the start of the response, one event frame, and
  the closing message; nothing follows, and no error ends the stream early.
\<close>

theorem sse_one_event_then_closed:
  assumes \<open>req_method r = GET\<close> and \<open>req_path r = ''/sse''\<close> and \<open>app_routes s = app\<close>
  shows \<open>\<exists>start frame.
     fst (handle_request sep r s) =
       Some (Served [start, HttpResponseBody frame True, HttpResponseBody [] False] None) \<and>
     event_frames [start, HttpResponseBody frame True, HttpResponseBody [] False] = [frame]\<close>
proof -
  have \<open>fst (handle_request sep r s) =
     Some (Served [HttpResponseStart 200 [(''content-type'', ''text/event-stream'')],
                   HttpResponseBody (ensure_bytes sep wire_payload) True,
                   HttpResponseBody [] False] None)\<close>
    using assms by (simp add: handle_request_sse)
  moreover have \<open>event_frames
     [HttpResponseStart 200 [(''content-type'', ''text/event-stream'')],
      HttpResponseBody (ensure_bytes sep wire_payload) True,
      HttpResponseBody [] False] = [ensure_bytes sep wire_payload]\<close>
    by simp
  ultimately show ?thesis by blast
qed

theorem sse_one_event_then_closed_witness:
  \<open>req_method (sse_request ''session=1'' [(''accept'', ''text/event-stream'')] []) = GET \<and>
   req_path (sse_request ''session=1'' [(''accept'', ''text/event-stream'')] []) = ''/sse'' \<and>
   app_routes (import_module \<lparr>app_routes = [], files = []\<rparr>) = app \<and>
   (\<exists>start frame.
     fst (handle_request ''\<newline>'' (sse_request ''session=1'' [(''accept'', ''text/event-stream'')] [])
            (import_module \<lparr>app_routes = [], files = []\<rparr>)) =
       Some (Served [start, HttpResponseBody frame True, HttpResponseBody [] False] None) \<and>
     event_frames [start, HttpResponseBody frame True, HttpResponseBody [] False] = [frame])\<close>
  using sse_one_event_then_closed
    [of "sse_request ''session=1'' [(''accept'', ''text/event-stream'')] []"
        "import_module \<lparr>app_routes = [], files = []\<rparr>" "''\<newline>''"]
  by (simp add: sse_request_def import_module_def)

text \<open>
  C2. The data of the single event is the JSON text of the specification, byte for byte:
  the serialiser writes exactly that text for the handler's literal, the one event frame
  of the response carries it as its data field, and reading the text back as JSON gives
  the literal structure again (one toolgroup named \<^verbatim>\<open>rag-dogs\<close> whose \<^verbatim>\<open>args\<close> map
  \<^verbatim>\<open>vector_db_ids\<close> to the list with the one element \<^verbatim>\<open>toy_faiss_db\<close>).
\<close>

theorem sse_event_data_is_wire_payload:
  \<open>json_dumps data =
     Inr ''{"toolgroups": [{"name": "rag-dogs", "args": {"vector_db_ids": ["toy_faiss_db"]}}]}'' \<and>
   (\<exists>msgs. stream_response sep (fst (mcp_context s)) = Some (msgs, None) \<and>
      event_frames msgs =
        [encode sep \<lparr>sse_id = None, sse_event = None, sse_data = Some
           ''{"toolgroups": [{"name": "rag-dogs", "args": {"vector_db_ids": ["toy_faiss_db"]}}]}''\<rparr>]) \<and>
   json_loads ''{"toolgroups": [{"name": "rag-dogs", "args": {"vector_db_ids": ["toy_faiss_db"]}}]}'' =
     Some (PyDict [(''toolgroups'',
       PyList [PyDict [(''name'', PyStr ''rag-dogs''),
                       (''args'', PyDict [(''vector_db_ids'', PyList [PyStr ''toy_faiss_db''])])]])])\<close>
proof -
  have \<open>json_dumps data = Inr wire_payload\<close>
    by (rule json_dumps_data)
  moreover have \<open>\<exists>msgs. stream_response sep (fst (mcp_context s)) = Some (msgs, None) \<and>
      event_frames msgs =
        [encode sep \<lparr>sse_id = None, sse_event = None, sse_data = Some wire_payload\<rparr>]\<close>
    by (simp add: stream_response_mcp_context ensure_bytes_def)
  moreover have \<open>json_loads wire_payload = Some data\<close>
    by (rule json_loads_wire_payload)
  ultimately show ?thesis
    unfolding wire_payload_def data_def by blast
qed

text \<open>
  C3. Any number of requests \<^verbatim>\<open>GET /sse\<close> served one after the other get the same
  response each: the same status, which is 200, the same sequence of messages and the same
  bytes in the one event.
\<close>

theorem sequential_requests_identical:
  assumes \<open>\<forall>r \<in> set reqs. req_method r = GET \<and> req_path r = ''/sse''\<close>
    and \<open>app_routes s = app\<close>
  shows \<open>fst (serve sep reqs s) =
     replicate (length reqs)
       (Some (Served [HttpResponseStart 200 [(''content-type'', ''text/event-stream'')],
                      HttpResponseBody (ensure_bytes sep wire_payload) True,
                      HttpResponseBody [] False] None))\<close>
  using assms
proof (induction reqs)
  case Nil
  show ?case by simp
next
  case (Cons r reqs)
  have first: \<open>req_method r = GET\<close> \<open>req_path r = ''/sse''\<close>
    using Cons.prems(1) by simp_all
  have rest: \<open>\<forall>r \<in> set reqs. req_method r = GET \<and> req_path r = ''/sse''\<close>
    using Cons.prems(1) by simp
  have step: \<open>handle_request sep r s =
     (Some (Served [HttpResponseStart 200 [(''content-type'', ''text/event-stream'')],
                    HttpResponseBody (ensure_bytes sep wire_payload) True,
                    HttpResponseBody [] False] None), s)\<close>
    using first Cons.prems(2) by (rule handle_request_sse)
  have later: \<open>fst (serve sep reqs s) =
     replicate (length reqs)
       (Some (Served [HttpResponseStart 200 [(''content-type'', ''text/event-stream'')],
                      HttpResponseBody (ensure_bytes sep wire_payload) True,
                      HttpResponseBody [] False] None))\<close>
    using rest Cons.prems(2) by (rule Cons.IH)
  have \<open>fst (serve sep (r # reqs) s) = fst (handle_request sep r s) # fst (serve sep reqs s)\<close>
    by (simp add: split_beta handle_request_state)
  then show ?case
    by (simp only: step later fst_conv length_Cons replicate_Suc)
qed

theorem sequential_requests_identical_witness:
  \<open>req_method (sse_request [] [] []) = GET \<and>
   req_path (sse_request [] [] []) = ''/sse'' \<and>
   req_method (sse_request ''x=1'' [(''user-agent'', ''curl'')] ''body'') = GET \<and>
   req_path (sse_request ''x=1'' [(''user-agent'', ''curl'')] ''body'') = ''/sse'' \<and>
   app_routes (import_module \<lparr>app_routes = [], files = []\<rparr>) = app \<and>
   fst (serve ''\<newline>''
          [sse_request [] [] [], sse_request ''x=1'' [(''user-agent'', ''curl'')] ''body'']
          (import_module \<lparr>app_routes = [], files = []\<rparr>)) =
     [Some (Served [HttpResponseStart 200 [(''content-type'', ''text/event-stream'')],
                    HttpResponseBody (ensure_bytes ''\<newline>'' wire_payload) True,
                    HttpResponseBody [] False] None),
      Some (Served [HttpResponseStart 200 [(''content-type'', ''text/event-stream'')],
                    HttpResponseBody (ensure_bytes ''\<newline>'' wire_payload) True,
                    HttpResponseBody [] False] None)]\<close>
  using sequential_requests_identical
    [of "[sse_request [] [] [], sse_request ''x=1'' [(''user-agent'', ''curl'')] ''body'']"
        "import_module \<lparr>app_routes = [], files = []\<rparr>" "''\<newline>''"]
  by (simp add: sse_request_def import_module_def)

text \<open>
  C4. Every response to \<^verbatim>\<open>GET /sse\<close> has status 200 and content type
  \<^verbatim>\<open>text/event-stream\<close>: the response object the handler returns carries them, and
  they are what the start of the streamed response announces.
\<close>

theorem sse_status_and_content_type:
  assumes \<open>req_method r = GET\<close> and \<open>req_path r = ''/sse''\<close> and \<open>app_routes s = app\<close>
  shows \<open>status_code (fst (mcp_context s)) = 200 \<and>
     media_type (fst (mcp_context s)) = ''text/event-stream'' \<and>
     (\<exists>rest. fst (handle_request sep r s) =
        Some (Served (HttpResponseStart 200 [(''content-type'', ''text/event-stream'')] # rest)
                None))\<close>
  using assms by (simp add: handle_request_sse mcp_context_def EventSourceResponse_def)

theorem sse_status_and_content_type_witness:
  \<open>req_method (sse_request [] [] []) = GET \<and>
   req_path (sse_request [] [] []) = ''/sse'' \<and>
   app_routes (import_module \<lparr>app_routes = [], files = []\<rparr>) = app \<and>
   status_code (fst (mcp_context (import_module \<lparr>app_routes = [], files = []\<rparr>))) = 200 \<and>
   media_type (fst (mcp_context (import_module \<lparr>app_routes = [], files = []\<rparr>))) =
     ''text/event-stream'' \<and>
   (\<exists>rest. fst (handle_request ''\<newline>'' (sse_request [] [] [])
                   (import_module \<lparr>app_routes = [], files = []\<rparr>)) =
      Some (Served (HttpResponseStart 200 [(''content-type'', ''text/event-stream'')] # rest)
              None))\<close>
  using sse_status_and_content_type
    [of "sse_request [] [] []" "import_module \<lparr>app_routes = [], files = []\<rparr>" "''\<newline>''"]
  by (simp add: sse_request_def import_module_def)

text \<open>
  C5. The handler has no error branch. Serialising the literal succeeds, and every request
  \<^verbatim>\<open>GET /sse\<close> is served to the end of its stream with no error raised.
\<close>

theorem sse_handler_never_fails:
  assumes \<open>req_method r = GET\<close> and \<open>req_path r = ''/sse''\<close> and \<open>app_routes s = app\<close>
  shows \<open>(\<exists>t. json_dumps data = Inr t) \<and>
     (\<exists>msgs. fst (handle_request sep r s) = Some (Served msgs None))\<close>
  using assms by (simp add: handle_request_sse json_dumps_data)

theorem sse_handler_never_fails_witness:
  \<open>req_method (sse_request [] [] ''ignored'') = GET \<and>
   req_path (sse_request [] [] ''ignored'') = ''/sse'' \<and>
   app_routes (import_module \<lparr>app_routes = [], files = [(''/tmp/x'', ''y'')]\<rparr>) = app \<and>
   (\<exists>t. json_dumps data = Inr t) \<and>
   (\<exists>msgs. fst (handle_request ''\<newline>'' (sse_request [] [] ''ignored'')
                   (import_module \<lparr>app_routes = [], files = [(''/tmp/x'', ''y'')]\<rparr>)) =
      Some (Served msgs None))\<close>
  using sse_handler_never_fails
    [of "sse_request [] [] ''ignored''"
        "import_module \<lparr>app_routes = [], files = [(''/tmp/x'', ''y'')]\<rparr>" "''\<newline>''"]
  by (simp add: sse_request_def import_module_def)

text \<open>
  C6. The one event is a data-only event: it is built with no identifier and no event
  name, and its frame is the single line \<^verbatim>\<open>data: <payload>\<close> followed by the empty
  line that ends the event.
\<close>

theorem sse_event_is_data_only:
  \<open>(\<exists>start. stream_response sep (fst (mcp_context s)) =
      Some ([start,
             HttpResponseBody
               (encode sep \<lparr>sse_id = None, sse_event = None, sse_data = Some wire_payload\<rparr>) True,
             HttpResponseBody [] False], None)) \<and>
   encode sep \<lparr>sse_id = None, sse_event = None, sse_data = Some wire_payload\<rparr> =
     ''data: '' @ wire_payload @ sep @ sep\<close>
  by (simp add: stream_response_mcp_context ensure_bytes_def encode_def)

text \<open>
  C7. The handler reads and writes no state outside the request. The payload is the local
  literal, the same whatever the program state; calling the handler, handling a request and
  serving any sequence of requests all leave the program state as it was.
\<close>

theorem handler_leaves_state_unchanged:
  \<open>gen_data (body_iterator (fst (mcp_context s))) = data \<and>
   fst (mcp_context s) = fst (mcp_context s') \<and>
   snd (mcp_context s) = s \<and>
   snd (handle_request sep r s) = s \<and>
   snd (serve sep rs s) = s\<close>
  by (simp add: handle_request_state serve_state mcp_context_def EventSourceResponse_def
      genexpr_def)

text \<open>
  C8. The response does not depend on the request: two requests \<^verbatim>\<open>GET /sse\<close>,
  whatever their query strings, headers and bodies, and whatever the rest of the program
  state, are answered with the same messages.
\<close>

theorem response_independent_of_request:
  assumes \<open>req_method r1 = GET\<close> and \<open>req_path r1 = ''/sse''\<close>
    and \<open>req_method r2 = GET\<close> and \<open>req_path r2 = ''/sse''\<close>
    and \<open>app_routes s1 = app\<close> and \<open>app_routes s2 = app\<close>
  shows \<open>fst (handle_request sep r1 s1) = fst (handle_request sep r2 s2)\<close>
  using assms by (simp add: handle_request_sse)

theorem response_independent_of_request_witness:
  \<open>req_method (sse_request [] [] []) = GET \<and>
   req_path (sse_request [] [] []) = ''/sse'' \<and>
   req_method (sse_request ''a=b'' [(''cookie'', ''k=v'')] ''{}'') = GET \<and>
   req_path (sse_request ''a=b'' [(''cookie'', ''k=v'')] ''{}'') = ''/sse'' \<and>
   app_routes (import_module \<lparr>app_routes = [], files = []\<rparr>) = app \<and>
   app_routes (import_module \<lparr>app_routes = [], files = [(''/etc/hosts'', [])]\<rparr>) = app \<and>
   fst (handle_request ''\<newline>'' (sse_request [] [] [])
          (import_module \<lparr>app_routes = [], files = []\<rparr>)) =
   fst (handle_request ''\<newline>'' (sse_request ''a=b'' [(''cookie'', ''k=v'')] ''{}'')
          (import_module \<lparr>app_routes = [], files = [(''/etc/hosts'', [])]\<rparr>))\<close>
  using response_independent_of_request
    [of "sse_request [] [] []" "sse_request ''a=b'' [(''cookie'', ''k=v'')] ''{}''"
        "import_module \<lparr>app_routes = [], files = []\<rparr>"
        "import_module \<lparr>app_routes = [], files = [(''/etc/hosts'', [])]\<rparr>" "''\<newline>''"]
  by (simp add: sse_request_def import_module_def)

text \<open>
  C9. The application registers exactly one route, \<^verbatim>\<open>GET /sse\<close>: that is the whole
  route table after the module is loaded, loading the module creates no file, and a
  request with another method or another path is handled by no route of the application
  and leaves the state, files included, as it was.
\<close>

theorem only_route_is_get_sse:
  assumes \<open>req_method r \<noteq> GET \<or> req_path r \<noteq> ''/sse''\<close>
  shows \<open>app_routes (import_module s) =
       [\<lparr>route_path = ''/sse'', route_methods = [GET], route_endpoint = Mcp_context\<rparr>] \<and>
     files (import_module s) = files s \<and>
     handle_request sep r (import_module s) = (Some NoRoute, import_module s)\<close>
proof -
  have \<open>app_routes (import_module s) = app\<close>
    by (simp add: import_module_def)
  with assms have \<open>handle_request sep r (import_module s) = (Some NoRoute, import_module s)\<close>
    by (rule handle_request_other)
  then show ?thesis
    by (simp add: import_module_def app_def app_get_def FastAPI_def)
qed

theorem only_route_is_get_sse_witness:
  \<open>req_method \<lparr>req_method = POST, req_path = ''/sse'', req_query = [], req_headers = [],
                req_body = ''{}''\<rparr> \<noteq> GET \<and>
   app_routes (import_module \<lparr>app_routes = [], files = [(''/tmp/x'', ''y'')]\<rparr>) =
     [\<lparr>route_path = ''/sse'', route_methods = [GET], route_endpoint = Mcp_context\<rparr>] \<and>
   files (import_module \<lparr>app_routes = [], files = [(''/tmp/x'', ''y'')]\<rparr>) =
     [(''/tmp/x'', ''y'')] \<and>
   handle_request ''\<newline>''
     \<lparr>req_method = POST, req_path = ''/sse'', req_query = [], req_headers = [], req_body = ''{}''\<rparr>
     (import_module \<lparr>app_routes = [], files = [(''/tmp/x'', ''y'')]\<rparr>) =
   (Some NoRoute, import_module \<lparr>app_routes = [], files = [(''/tmp/x'', ''y'')]\<rparr>)\<close>
  using only_route_is_get_sse
    [of "\<lparr>req_method = POST, req_path = ''/sse'', req_query = [], req_headers = [],
          req_body = ''{}''\<rparr>"
        "\<lparr>app_routes = [], files = [(''/tmp/x'', ''y'')]\<rparr>" "''\<newline>''"]
  by simp

text \<open>
  C10. The event source the handler passes to the response is the generator over
  \<^verbatim>\<open>range(1)\<close>: its first step yields the serialised payload, its second step is the
  end of the iteration, and draining it ends with exactly one event sent.
\<close>

theorem generator_yields_once_and_stops:
  \<open>body_iterator (fst (mcp_context s)) = genexpr data (py_range 1) \<and>
   gen_next (genexpr data (py_range 1)) = Yielded wire_payload (genexpr data (1, 1)) \<and>
   gen_next (genexpr data (1, 1)) = StopIteration \<and>
   (\<exists>msgs. stream_response sep (fst (mcp_context s)) = Some (msgs, None) \<and>
      length (event_frames msgs) = 1)\<close>
  by (simp add: gen_next_first gen_next_second stream_response_mcp_context)
    (simp add: mcp_context_def EventSourceResponse_def)

end
